theory Spec2Isabelle
  imports Main
begin

section \<open>Data model\<close>

text \<open>
  The handlers of \<^verbatim>\<open>app/api/api_v1/routers/users.py\<close> work on ORM objects and
  request schemas whose classes live in \<^verbatim>\<open>app.models\<close> and \<^verbatim>\<open>app.schemas\<close>.
  Each class is a record holding the attributes the handlers read or write. Where two
  classes share an attribute name the record field carries a prefix; the attribute it
  stands for is named beside it.
\<close>

record Role =
  name :: string

record UserRole =
  ur_user_id :: string   \<comment> \<open>\<^verbatim>\<open>UserRole.user_id\<close>\<close>
  role_id :: string
  role :: Role

record User =
  user_id :: string      \<comment> \<open>the identifier, read as \<^verbatim>\<open>user.user_id\<close> and \<^verbatim>\<open>current_user.id\<close>\<close>
  email :: string
  phone_number :: "string option"
  full_name :: string
  password :: string     \<comment> \<open>the stored, hashed secret\<close>
  is_active :: bool
  created_at :: nat
  updated_at :: nat
  user_role :: "UserRole option"

record Item =
  item_ident :: string
  item_status :: int

record Session =
  users :: "User list"
  user_roles :: "UserRole list"
  items :: "Item list"

record UserLogin =
  email_or_phone_no :: string
  login_password :: string    \<comment> \<open>\<^verbatim>\<open>UserLogin.password\<close>\<close>
  login_user_role :: string   \<comment> \<open>\<^verbatim>\<open>UserLogin.user_role\<close>\<close>

record UserCreate =
  email_id :: string
  create_password :: string               \<comment> \<open>\<^verbatim>\<open>UserCreate.password\<close>\<close>
  create_full_name :: string              \<comment> \<open>\<^verbatim>\<open>UserCreate.full_name\<close>\<close>
  create_phone_number :: "string option"  \<comment> \<open>\<^verbatim>\<open>UserCreate.phone_number\<close>\<close>

record UserUpdate =
  upd_user_id :: "string option"       \<comment> \<open>\<^verbatim>\<open>UserUpdate.user_id\<close>\<close>
  upd_full_name :: "string option"     \<comment> \<open>\<^verbatim>\<open>UserUpdate.full_name\<close>\<close>
  upd_phone_number :: "string option"  \<comment> \<open>\<^verbatim>\<open>UserUpdate.phone_number\<close>\<close>
  upd_email :: "string option"         \<comment> \<open>\<^verbatim>\<open>UserUpdate.email\<close>\<close>

record schemas_User =
  s_id :: string
  s_email :: string
  s_is_active :: bool
  s_full_name :: string
  s_created_at :: nat
  s_updated_at :: nat
  s_role :: "string option"

record PaginatedItemList =
  p_total :: nat
  p_items :: "Item list"
  p_skip :: int
  p_limit :: int

datatype json = JStr string | JInt int

record JSONResponse =
  content :: "(string \<times> json) list"
  status_code :: int

text \<open>
  Exceptions are values. \<open>HTTPException status_code detail\<close> is the one the handlers
  raise and catch; \<open>AttributeError\<close> is what Python raises when an attribute is read
  from \<^verbatim>\<open>None\<close>; \<open>RequestValidationError\<close> is the framework's rejection of a
  query parameter outside its declared range.
\<close>

datatype exn =
    HTTPException int string
  | AttributeError string
  | RequestValidationError

text \<open>The calls a handler makes to its collaborators, in the order it makes them.\<close>

datatype call =
    Call_get_by_email_or_phone string string
  | Call_verify_password string string
  | Call_get_by_user_id string

section \<open>Collaborators\<close>

text \<open>
  The hashing scheme of \<^verbatim>\<open>app.core.security\<close> is a parameter of every handler that
  uses it: \<open>verify_password plaintext hashed\<close> and the hash applied on creation.
\<close>

record security =
  verify_password :: "string \<Rightarrow> string \<Rightarrow> bool"
  hash_password :: "string \<Rightarrow> string"

text \<open>
  Modelled from the spec: \<^verbatim>\<open>crud.user.get_by_email_or_phone\<close> is defined in
  \<^verbatim>\<open>app.crud\<close>, outside the routers module. The spec: resolve a user whose email equals the identifier OR whose
  phone number equals the identifier; the result is a record or empty.
\<close>

definition crud_user_get_by_email_or_phone ::
  "Session \<Rightarrow> string \<Rightarrow> string \<Rightarrow> User option" where
  "crud_user_get_by_email_or_phone db email_arg phone_arg =
     find (\<lambda>u. email u = email_arg \<or> phone_number u = Some phone_arg) (users db)"

text \<open>
  Modelled from the spec: \<^verbatim>\<open>crud.user_role.get_by_user_id\<close> is defined in
  \<^verbatim>\<open>app.crud\<close>, outside the routers module. The spec: \<^verbatim>\<open>resolve_role(user_id) -> role_assignment | absent\<close>.
\<close>

definition crud_user_role_get_by_user_id :: "Session \<Rightarrow> string \<Rightarrow> UserRole option" where
  "crud_user_role_get_by_user_id db uid = find (\<lambda>r. ur_user_id r = uid) (user_roles db)"

section \<open>The login handler\<close>

text \<open>
  \<^verbatim>\<open>create_user\<close> bound to \<^verbatim>\<open>POST /users/user-login\<close> (the first of the two
  functions of that name). \<open>create_user_login_body\<close> is the body of its \<^verbatim>\<open>try\<close>
  block: a raise is an \<open>Inl\<close>, the returned response an \<open>Inr\<close>. Reading
  \<^verbatim>\<open>db_user.role_id\<close> when the role lookup gave \<^verbatim>\<open>None\<close> raises
  \<^verbatim>\<open>AttributeError\<close>. The call to the logger before the \<^verbatim>\<open>try\<close> has no
  influence on the result and is left out.
\<close>

definition create_user_login_body ::
  "security \<Rightarrow> Session \<Rightarrow> UserLogin \<Rightarrow> call list \<times> (exn + JSONResponse)" where
  "create_user_login_body sec db user_dtl =
     (let ident = email_or_phone_no user_dtl;
          t1 = [Call_get_by_email_or_phone ident ident]
      in case crud_user_get_by_email_or_phone db ident ident of
           Some user \<Rightarrow>
             (let t2 = t1 @ [Call_verify_password (login_password user_dtl) (password user)]
              in if verify_password sec (login_password user_dtl) (password user) = False
                 then (t2, Inl (HTTPException 409 ''Please check user credentials''))
                 else
                   (let t3 = t2 @ [Call_get_by_user_id (user_id user)]
                    in case crud_user_role_get_by_user_id db (user_id user) of
                         None \<Rightarrow> (t3, Inl (AttributeError ''role_id''))
                       | Some db_user \<Rightarrow>
                           if role_id db_user \<noteq> login_user_role user_dtl
                           then (t3, Inl (HTTPException 409 ''User role does not match''))
                           else (t3, Inr \<lparr>content =
                                            [(''message'', JStr ''Login successful''),
                                             (''status'', JInt 200),
                                             (''user_id'', JStr (user_id user))],
                                          status_code = 200\<rparr>)))
         | None \<Rightarrow>
             (t1, Inl (HTTPException 409 ''User does not exist, please sign up.'')))"

text \<open>
  The \<^verbatim>\<open>except HTTPException as e\<close> clause shared by the handlers: an
  \<^verbatim>\<open>HTTPException\<close> becomes a response carrying its detail and status code; any
  other exception is not caught and leaves the handler.
\<close>

fun except_HTTPException :: "exn + JSONResponse \<Rightarrow> exn + JSONResponse" where
  "except_HTTPException (Inl (HTTPException sc detail)) =
     Inr \<lparr>content = [(''detail'', JStr detail), (''status'', JInt sc)], status_code = sc\<rparr>"
| "except_HTTPException (Inl e) = Inl e"
| "except_HTTPException (Inr r) = Inr r"

definition create_user_login ::
  "security \<Rightarrow> Session \<Rightarrow> UserLogin \<Rightarrow> call list \<times> (exn + JSONResponse)" where
  "create_user_login sec db user_dtl =
     (case create_user_login_body sec db user_dtl of
        (t, res) \<Rightarrow> (t, except_HTTPException res))"

section \<open>The create-user handler\<close>

text \<open>
  Modelled from the spec: \<^verbatim>\<open>crud.user.get_by_email\<close> is defined in
  \<^verbatim>\<open>app.crud\<close>, outside the routers module. The spec: \<^verbatim>\<open>get_by_email(email)\<close> returns a record or an empty result.
\<close>

definition crud_user_get_by_email :: "Session \<Rightarrow> string \<Rightarrow> User option" where
  "crud_user_get_by_email db email_arg = find (\<lambda>u. email u = email_arg) (users db)"

text \<open>
  Modelled from the spec: \<^verbatim>\<open>crud.user.create\<close> is defined in
  \<^verbatim>\<open>app.crud\<close>, outside the routers module.
  The spec: persist a new record with a hashed secret. The identifier generated for the
  new row and the time of its creation are arguments.
\<close>

definition crud_user_create ::
  "security \<Rightarrow> string \<Rightarrow> nat \<Rightarrow> Session \<Rightarrow> UserCreate \<Rightarrow> User \<times> Session" where
  "crud_user_create sec new_id now db obj_in =
     (let db_obj = \<lparr>user_id = new_id,
                     email = email_id obj_in,
                     phone_number = create_phone_number obj_in,
                     full_name = create_full_name obj_in,
                     password = hash_password sec (create_password obj_in),
                     is_active = True,
                     created_at = now,
                     updated_at = now,
                     user_role = None\<rparr>
      in (db_obj, db\<lparr>users := users db @ [db_obj]\<rparr>))"

text \<open>
  \<^verbatim>\<open>create_user\<close> bound to \<^verbatim>\<open>POST /users/create-user\<close> (the second function of
  that name). The handler returns its response and leaves the session as the calls made
  it.
\<close>

definition create_user_body ::
  "security \<Rightarrow> string \<Rightarrow> nat \<Rightarrow> Session \<Rightarrow> UserCreate \<Rightarrow> (exn + JSONResponse) \<times> Session" where
  "create_user_body sec new_id now db user_in =
     (case crud_user_get_by_email db (email_id user_in) of
        Some user \<Rightarrow>
          (Inl (HTTPException 409
                  ''The user with this user email already exists in the system.''), db)
      | None \<Rightarrow>
          (case crud_user_create sec new_id now db user_in of
             (user, db') \<Rightarrow>
               (Inr \<lparr>content = [(''message'', JStr ''User created successfully''),
                                (''status'', JInt 200)],
                     status_code = 200\<rparr>, db')))"

definition create_user ::
  "security \<Rightarrow> string \<Rightarrow> nat \<Rightarrow> Session \<Rightarrow> UserCreate \<Rightarrow> (exn + JSONResponse) \<times> Session" where
  "create_user sec new_id now db user_in =
     (case create_user_body sec new_id now db user_in of
        (res, db') \<Rightarrow> (except_HTTPException res, db'))"

section \<open>Updating and reading the current user\<close>

text \<open>
  \<^verbatim>\<open>schemas.UserUpdate(**jsonable_encoder(current_user))\<close>: the update schema filled
  from the current record.
\<close>

definition UserUpdate_of :: "User \<Rightarrow> UserUpdate" where
  "UserUpdate_of u =
     \<lparr>upd_user_id = Some (user_id u),
      upd_full_name = Some (full_name u),
      upd_phone_number = phone_number u,
      upd_email = Some (email u)\<rparr>"

text \<open>
  Modelled from the spec: \<^verbatim>\<open>crud.user.update\<close> is defined in
  \<^verbatim>\<open>app.crud\<close>, outside the routers module.
  The spec: merge only the fields explicitly provided into the existing record, leaving
  unspecified fields untouched. The row of \<open>db_obj\<close> is the one holding its identifier.
\<close>

definition merge_fields :: "User \<Rightarrow> UserUpdate \<Rightarrow> User" where
  "merge_fields db_obj obj_in =
     db_obj\<lparr>user_id := (case upd_user_id obj_in of None \<Rightarrow> user_id db_obj | Some v \<Rightarrow> v),
            full_name := (case upd_full_name obj_in of None \<Rightarrow> full_name db_obj | Some v \<Rightarrow> v),
            phone_number :=
              (case upd_phone_number obj_in of None \<Rightarrow> phone_number db_obj | Some v \<Rightarrow> Some v),
            email := (case upd_email obj_in of None \<Rightarrow> email db_obj | Some v \<Rightarrow> v)\<rparr>"

definition crud_user_update :: "Session \<Rightarrow> User \<Rightarrow> UserUpdate \<Rightarrow> User \<times> Session" where
  "crud_user_update db db_obj obj_in =
     (let user = merge_fields db_obj obj_in
      in (user,
          db\<lparr>users := map (\<lambda>u. if user_id u = user_id db_obj then user else u) (users db)\<rparr>))"

text \<open>
  \<^verbatim>\<open>update_user_me\<close>: an argument left at \<^verbatim>\<open>None\<close> is \<open>None\<close> here.
\<close>

definition update_user_me ::
  "Session \<Rightarrow> string option \<Rightarrow> string option \<Rightarrow> string option \<Rightarrow> User \<Rightarrow> User \<times> Session" where
  "update_user_me db full_name_arg phone_number_arg email_arg current_user =
     (let user_in0 = UserUpdate_of current_user;
          user_in1 = (if phone_number_arg \<noteq> None
                      then user_in0\<lparr>upd_phone_number := phone_number_arg\<rparr> else user_in0);
          user_in2 = (if full_name_arg \<noteq> None
                      then user_in1\<lparr>upd_full_name := full_name_arg\<rparr> else user_in1);
          user_in3 = (if email_arg \<noteq> None
                      then user_in2\<lparr>upd_email := email_arg\<rparr> else user_in2)
      in crud_user_update db current_user user_in3)"

text \<open>\<^verbatim>\<open>read_user_me\<close>: the profile of the current user.\<close>

definition read_user_me :: "User \<Rightarrow> schemas_User" where
  "read_user_me current_user =
     (let role_v = (case user_role current_user of
                      None \<Rightarrow> None
                    | Some ur \<Rightarrow> Some (name (role ur)))
      in \<lparr>s_id = user_id current_user,
          s_email = email current_user,
          s_is_active = is_active current_user,
          s_full_name = full_name current_user,
          s_created_at = created_at current_user,
          s_updated_at = updated_at current_user,
          s_role = role_v\<rparr>)"

section \<open>The paginated item listing\<close>

text \<open>
  Modelled from the spec: \<^verbatim>\<open>crud.user.get_items\<close> is defined in
  \<^verbatim>\<open>app.crud\<close>, outside the routers module. The spec: fetch \<open>limit\<close> items starting at \<open>skip\<close> matching a status filter.
\<close>

definition crud_user_get_items :: "Session \<Rightarrow> int \<Rightarrow> int \<Rightarrow> int \<Rightarrow> Item list" where
  "crud_user_get_items db status skip limit =
     take (nat limit) (drop (nat skip) (filter (\<lambda>i. item_status i = status) (items db)))"

text \<open>
  \<^verbatim>\<open>get_items\<close>. The declarations \<^verbatim>\<open>Query(default=1, ge=1)\<close> and
  \<^verbatim>\<open>Query(default=10, ge=1)\<close> make the framework reject a page or a limit below 1
  before the body runs.
\<close>

definition get_items :: "int \<Rightarrow> Session \<Rightarrow> int \<Rightarrow> int \<Rightarrow> exn + PaginatedItemList" where
  "get_items status db page limit =
     (if page < 1 \<or> limit < 1 then Inl RequestValidationError
      else
        (let skip = (page - 1) * limit;
             its = crud_user_get_items db status skip limit
         in Inr \<lparr>p_total = length its, p_items = its, p_skip = skip, p_limit = limit\<rparr>))"

section \<open>A concrete store\<close>

text \<open>
  A hashing scheme and a store with two users, one of them without a role assignment,
  on which the theorems below are exercised.
\<close>

definition example_security :: security where
  "example_security =
     \<lparr>verify_password = (\<lambda>plain hashed. hashed = ''h:'' @ plain),
      hash_password = (\<lambda>plain. ''h:'' @ plain)\<rparr>"

definition admin_assignment :: UserRole where
  "admin_assignment = \<lparr>ur_user_id = ''u1'', role_id = ''r1'', role = \<lparr>name = ''ADMIN''\<rparr>\<rparr>"

definition alice :: User where
  "alice = \<lparr>user_id = ''u1'', email = ''alice@example.org'', phone_number = Some ''5550001'',
            full_name = ''Alice'', password = ''h:wonderland'', is_active = True,
            created_at = 1, updated_at = 2, user_role = Some admin_assignment\<rparr>"

definition bob :: User where
  "bob = \<lparr>user_id = ''u2'', email = ''bob@example.org'', phone_number = None,
          full_name = ''Bob'', password = ''h:builder'', is_active = True,
          created_at = 3, updated_at = 3, user_role = None\<rparr>"

definition example_db :: Session where
  "example_db =
     \<lparr>users = [alice, bob],
      user_roles = [admin_assignment],
      items = [\<lparr>item_ident = ''a'', item_status = 1\<rparr>,
               \<lparr>item_ident = ''b'', item_status = 0\<rparr>,
               \<lparr>item_ident = ''c'', item_status = 1\<rparr>,
               \<lparr>item_ident = ''d'', item_status = 1\<rparr>]\<rparr>"

lemmas example_defs =
  example_security_def admin_assignment_def alice_def bob_def example_db_def

text \<open>
  The example store after a third user has been created with the phone number of the
  first, and has been given a role assignment.
\<close>

definition dave_in :: UserCreate where
  "dave_in = \<lparr>email_id = ''dave@example.org'', create_password = ''garden'',
              create_full_name = ''Dave'', create_phone_number = Some ''5550001''\<rparr>"

definition dave :: User where
  "dave = \<lparr>user_id = ''u3'', email = ''dave@example.org'', phone_number = Some ''5550001'',
           full_name = ''Dave'', password = ''h:garden'', is_active = True,
           created_at = 9, updated_at = 9, user_role = None\<rparr>"

definition dave_assignment :: UserRole where
  "dave_assignment = \<lparr>ur_user_id = ''u3'', role_id = ''r2'', role = \<lparr>name = ''USER''\<rparr>\<rparr>"

definition shared_phone_db :: Session where
  "shared_phone_db =
     (snd (create_user example_security ''u3'' 9 example_db dave_in))
       \<lparr>user_roles := [admin_assignment, dave_assignment]\<rparr>"

lemmas shared_phone_defs = dave_in_def dave_def dave_assignment_def shared_phone_db_def

section \<open>Facts about the lookups\<close>

lemma get_by_email_or_phone_Some:
  assumes "crud_user_get_by_email_or_phone db e p = Some u"
  shows "u \<in> set (users db)" and "email u = e \<or> phone_number u = Some p"
proof -
  from assms have f: "find (\<lambda>u. email u = e \<or> phone_number u = Some p) (users db) = Some u"
    by (simp add: crud_user_get_by_email_or_phone_def)
  then obtain i where "i < length (users db)" and "users db ! i = u"
    and "email u = e \<or> phone_number u = Some p"
    unfolding find_Some_iff by blast
  then show "u \<in> set (users db)" and "email u = e \<or> phone_number u = Some p"
    using nth_mem by blast+
qed

lemma get_by_email_or_phone_None:
  "crud_user_get_by_email_or_phone db e p = None \<longleftrightarrow>
     (\<forall>u \<in> set (users db). email u \<noteq> e \<and> phone_number u \<noteq> Some p)"
  unfolding crud_user_get_by_email_or_phone_def find_None_iff by blast


lemma find_unique:
  assumes "x \<in> set xs" and "P x" and "\<And>y. y \<in> set xs \<Longrightarrow> P y \<Longrightarrow> y = x"
  shows "find P xs = Some x"
proof (cases "find P xs")
  case None
  then have "\<not> (\<exists>x. x \<in> set xs \<and> P x)"
    unfolding find_None_iff .
  with assms(1,2) show ?thesis by blast
next
  case (Some y)
  then obtain i where "i < length xs" and "P (xs ! i)" and "y = xs ! i"
    unfolding find_Some_iff by blast
  then have "y \<in> set xs" and "P y"
    by simp_all
  with assms(3) have "y = x" by blast
  with Some show ?thesis by simp
qed

lemma get_by_email_or_phone_unique:
  assumes "u \<in> set (users db)"
    and "email u = i \<or> phone_number u = Some i"
    and "\<And>v. v \<in> set (users db) \<Longrightarrow> email v = i \<or> phone_number v = Some i \<Longrightarrow> v = u"
  shows "crud_user_get_by_email_or_phone db i i = Some u"
  unfolding crud_user_get_by_email_or_phone_def
  by (rule find_unique) (use assms in blast)+

lemma get_by_email_None:
  "crud_user_get_by_email db e = None \<longleftrightarrow> (\<forall>u \<in> set (users db). email u \<noteq> e)"
  unfolding crud_user_get_by_email_def find_None_iff by blast

lemmas login_defs = create_user_login_def create_user_login_body_def Let_def

lemma snd_create_user_login:
  "snd (create_user_login sec db user_dtl) =
     except_HTTPException (snd (create_user_login_body sec db user_dtl))"
  by (simp add: create_user_login_def split_beta)

lemma fst_create_user_login:
  "fst (create_user_login sec db user_dtl) = fst (create_user_login_body sec db user_dtl)"
  by (simp add: create_user_login_def split_beta)

lemmas lookup_defs = crud_user_get_by_email_or_phone_def crud_user_role_get_by_user_id_def

lemma users_shared_phone_db: "users shared_phone_db = [alice, bob, dave]"
  by (simp add: shared_phone_defs example_defs create_user_def create_user_body_def
      crud_user_create_def crud_user_get_by_email_def Let_def)

section \<open>Login\<close>

text \<open>
  C1, as first stated: every stored user can log in with the own email or phone number,
  the own secret and the own role. The create-user handler tests the email only, so a
  second user can be stored with the phone number of an earlier one. The lookup by that
  number then resolves to the earlier user, the secret of the later one does not verify
  against the hash found, and the login is refused.
\<close>

theorem login_shared_phone_refused:
  "fst (create_user example_security ''u3'' 9 example_db dave_in) =
     Inr \<lparr>content = [(''message'', JStr ''User created successfully''),
                      (''status'', JInt 200)], status_code = 200\<rparr>
   \<and> users shared_phone_db = [alice, bob, dave]
   \<and> dave \<in> set (users shared_phone_db)
   \<and> phone_number dave = Some ''5550001''
   \<and> verify_password example_security ''garden'' (password dave)
   \<and> crud_user_role_get_by_user_id shared_phone_db (user_id dave) = Some dave_assignment
   \<and> role_id dave_assignment = ''r2''
   \<and> snd (create_user_login example_security shared_phone_db
            \<lparr>email_or_phone_no = ''5550001'', login_password = ''garden'',
             login_user_role = ''r2''\<rparr>) =
       Inr \<lparr>content = [(''detail'', JStr ''Please check user credentials''),
                        (''status'', JInt 409)], status_code = 409\<rparr>"
proof -
  have c: "fst (create_user example_security ''u3'' 9 example_db dave_in) =
     Inr \<lparr>content = [(''message'', JStr ''User created successfully''),
                      (''status'', JInt 200)], status_code = 200\<rparr>"
    by (simp add: shared_phone_defs example_defs create_user_def create_user_body_def
        crud_user_create_def crud_user_get_by_email_def Let_def)
  have u: "users shared_phone_db = [alice, bob, dave]"
    by (rule users_shared_phone_db)
  have r: "user_roles shared_phone_db = [admin_assignment, dave_assignment]"
    by (simp add: shared_phone_db_def)
  have d: "phone_number dave = Some ''5550001''"
    "verify_password example_security ''garden'' (password dave)"
    "role_id dave_assignment = ''r2''"
    by (simp_all add: shared_phone_defs example_security_def)
  have a: "crud_user_role_get_by_user_id shared_phone_db (user_id dave) = Some dave_assignment"
    by (simp add: crud_user_role_get_by_user_id_def r)
       (simp add: dave_def dave_assignment_def admin_assignment_def)
  have l: "snd (create_user_login example_security shared_phone_db
            \<lparr>email_or_phone_no = ''5550001'', login_password = ''garden'',
             login_user_role = ''r2''\<rparr>) =
       Inr \<lparr>content = [(''detail'', JStr ''Please check user credentials''),
                        (''status'', JInt 409)], status_code = 409\<rparr>"
    by (simp add: login_defs crud_user_get_by_email_or_phone_def u)
       (simp add: alice_def example_security_def)
  from c u d a l show ?thesis by simp
qed

text \<open>
  C1. Let \<open>U\<close> be a stored user, \<open>S\<close> a secret that verifies against its stored hash
  and \<open>R\<close> its stored role assignment, and let the identifier be the email or the phone
  number of \<open>U\<close>. If the lookup resolves the identifier to \<open>U\<close> (as it does by
  \<open>get_by_email_or_phone_unique\<close> when no other stored user carries it), logging in
  with the identifier, \<open>S\<close> and the role of \<open>R\<close> succeeds: the response has status
  code 200 and carries the success message, the status 200 and the identifier of \<open>U\<close>.
\<close>

theorem login_succeeds:
  assumes "U \<in> set (users db)"
    and "ident = email U \<or> phone_number U = Some ident"
    and "crud_user_get_by_email_or_phone db ident ident = Some U"
    and "verify_password sec S (password U)"
    and "crud_user_role_get_by_user_id db (user_id U) = Some R"
  shows "snd (create_user_login sec db
               \<lparr>email_or_phone_no = ident, login_password = S, login_user_role = role_id R\<rparr>) =
         Inr \<lparr>content = [(''message'', JStr ''Login successful''),
                          (''status'', JInt 200),
                          (''user_id'', JStr (user_id U))],
               status_code = 200\<rparr>"
  using assms(3-5) by (simp add: create_user_login_def create_user_login_body_def)

theorem login_succeeds_witness:
  "alice \<in> set (users example_db)
   \<and> email alice = ''alice@example.org'' \<and> phone_number alice = Some ''5550001''
   \<and> crud_user_get_by_email_or_phone example_db ''alice@example.org'' ''alice@example.org''
       = Some alice
   \<and> crud_user_get_by_email_or_phone example_db ''5550001'' ''5550001'' = Some alice
   \<and> verify_password example_security ''wonderland'' (password alice)
   \<and> crud_user_role_get_by_user_id example_db (user_id alice) = Some admin_assignment
   \<and> snd (create_user_login example_security example_db
            \<lparr>email_or_phone_no = ''alice@example.org'', login_password = ''wonderland'',
             login_user_role = ''r1''\<rparr>) =
       Inr \<lparr>content = [(''message'', JStr ''Login successful''), (''status'', JInt 200),
                        (''user_id'', JStr ''u1'')], status_code = 200\<rparr>
   \<and> snd (create_user_login example_security example_db
            \<lparr>email_or_phone_no = ''5550001'', login_password = ''wonderland'',
             login_user_role = ''r1''\<rparr>) =
       Inr \<lparr>content = [(''message'', JStr ''Login successful''), (''status'', JInt 200),
                        (''user_id'', JStr ''u1'')], status_code = 200\<rparr>"
proof -
  have m: "alice \<in> set (users example_db)"
    by (simp add: example_db_def)
  have f: "email alice = ''alice@example.org''" "phone_number alice = Some ''5550001''"
    by (simp_all add: alice_def)
  have ie: "''alice@example.org'' = email alice \<or> phone_number alice = Some ''alice@example.org''"
    and ip: "''5550001'' = email alice \<or> phone_number alice = Some ''5550001''"
    by (simp_all add: f)
  have e: "crud_user_get_by_email_or_phone example_db ''alice@example.org''
             ''alice@example.org'' = Some alice"
    by (simp add: crud_user_get_by_email_or_phone_def example_defs)
  have p: "crud_user_get_by_email_or_phone example_db ''5550001'' ''5550001'' = Some alice"
    by (simp add: crud_user_get_by_email_or_phone_def example_defs)
  have v: "verify_password example_security ''wonderland'' (password alice)"
    by (simp add: example_defs)
  have r: "crud_user_role_get_by_user_id example_db (user_id alice) = Some admin_assignment"
    by (simp add: crud_user_role_get_by_user_id_def example_defs)
  have i: "user_id alice = ''u1''" "role_id admin_assignment = ''r1''"
    by (simp_all add: example_defs)
  show ?thesis
    using m f e p v r login_succeeds [OF m ie e v r] login_succeeds [OF m ip p v r]
    by (simp only: i simp_thms)
qed

text \<open>
  C2. A user who is found and whose secret verifies, but for whom the role lookup
  returns nothing, ought to be refused with the role-mismatch response. The handler
  reads \<^verbatim>\<open>db_user.role_id\<close> without testing \<^verbatim>\<open>db_user\<close>: for the user
  \<open>bob\<close> of the example store, who has no assignment, the login raises
  \<^verbatim>\<open>AttributeError\<close>, which the \<^verbatim>\<open>except HTTPException\<close> clause does not
  catch. No response with status 409 and the message \<^verbatim>\<open>User role does not match\<close>
  is produced.
\<close>

theorem login_absent_role_raises:
  "create_user_login example_security example_db
     \<lparr>email_or_phone_no = ''bob@example.org'', login_password = ''builder'',
      login_user_role = ''r1''\<rparr> =
   ([Call_get_by_email_or_phone ''bob@example.org'' ''bob@example.org'',
     Call_verify_password ''builder'' ''h:builder'',
     Call_get_by_user_id ''u2''],
    Inl (AttributeError ''role_id''))"
  by (simp add: login_defs lookup_defs example_defs)

text \<open>
  C3. No exception ought to leave the login handler: every failure inside the flow is to
  come back as a status code and a message. The handler reads
  \<^verbatim>\<open>db_user.role_id\<close> without testing \<^verbatim>\<open>db_user\<close>, and its
  \<^verbatim>\<open>except\<close> clause names \<^verbatim>\<open>HTTPException\<close> only: a login of \<open>bob\<close>,
  who has no role assignment, with his own secret ends in an \<^verbatim>\<open>AttributeError\<close>
  that leaves the handler.
\<close>

theorem login_exception_propagates:
  "snd (create_user_login example_security example_db
          \<lparr>email_or_phone_no = ''bob@example.org'', login_password = ''builder'',
           login_user_role = ''r2''\<rparr>) = Inl (AttributeError ''role_id'')"
  by (simp add: login_defs lookup_defs example_defs)

text \<open>
  The exceptions the flow raises on purpose do come back as responses: an
  \<^verbatim>\<open>HTTPException\<close> raised in the body becomes the response with its status code
  and detail, and none leaves the handler.
\<close>

lemma login_HTTPException_caught:
  "(\<forall>sc d. snd (create_user_login_body sec db user_dtl) = Inl (HTTPException sc d) \<longrightarrow>
       snd (create_user_login sec db user_dtl) =
       Inr \<lparr>content = [(''detail'', JStr d), (''status'', JInt sc)], status_code = sc\<rparr>)
   \<and> (\<forall>sc d. snd (create_user_login sec db user_dtl) \<noteq> Inl (HTTPException sc d))"
proof (intro conjI allI impI)
  fix sc d
  assume "snd (create_user_login_body sec db user_dtl) = Inl (HTTPException sc d)"
  then show "snd (create_user_login sec db user_dtl) =
       Inr \<lparr>content = [(''detail'', JStr d), (''status'', JInt sc)], status_code = sc\<rparr>"
    by (simp add: snd_create_user_login)
next
  fix sc d
  show "snd (create_user_login sec db user_dtl) \<noteq> Inl (HTTPException sc d)"
  proof (cases "snd (create_user_login_body sec db user_dtl)")
    case (Inl e)
    then show ?thesis
      by (cases e) (simp_all add: snd_create_user_login)
  next
    case (Inr r)
    then show ?thesis
      by (simp add: snd_create_user_login)
  qed
qed

text \<open>
  An exception that leaves the login handler is the \<^verbatim>\<open>AttributeError\<close> of the
  untested role lookup; there is no other.
\<close>

lemma login_returns_or_AttributeError:
  "(\<exists>r. snd (create_user_login sec db user_dtl) = Inr r)
   \<or> snd (create_user_login sec db user_dtl) = Inl (AttributeError ''role_id'')"
  by (simp add: snd_create_user_login create_user_login_body_def Let_def
      split: option.splits)

text \<open>
  C5, as first stated: the response to a wrong secret carries the message
  \<^verbatim>\<open>please check user credentials\<close>. The message the handler sends begins with a
  capital letter.
\<close>

theorem login_wrong_secret_message:
  "snd (create_user_login example_security example_db
          \<lparr>email_or_phone_no = ''bob@example.org'', login_password = ''hammer'',
           login_user_role = ''r1''\<rparr>) =
     Inr \<lparr>content = [(''detail'', JStr ''Please check user credentials''),
                      (''status'', JInt 409)], status_code = 409\<rparr>
   \<and> JStr ''Please check user credentials'' \<noteq> JStr ''please check user credentials''"
  by (simp add: login_defs lookup_defs example_defs)

text \<open>
  C5. When a user is found for the identifier and the presented secret does not verify
  against the stored hash, the login fails with status 409 and the message
  \<^verbatim>\<open>Please check user credentials\<close>. The role assignment is never consulted: the
  calls made are the lookup and the verification only, and the outcome is the same
  whatever the table of role assignments holds.
\<close>

theorem login_wrong_secret:
  assumes "crud_user_get_by_email_or_phone db (email_or_phone_no user_dtl)
             (email_or_phone_no user_dtl) = Some U"
    and "\<not> verify_password sec (login_password user_dtl) (password U)"
  shows "create_user_login sec db user_dtl =
           ([Call_get_by_email_or_phone (email_or_phone_no user_dtl) (email_or_phone_no user_dtl),
             Call_verify_password (login_password user_dtl) (password U)],
            Inr \<lparr>content = [(''detail'', JStr ''Please check user credentials''),
                             (''status'', JInt 409)], status_code = 409\<rparr>)
         \<and> create_user_login sec (db\<lparr>user_roles := rs\<rparr>) user_dtl =
             create_user_login sec db user_dtl"
  using assms by (simp add: login_defs crud_user_get_by_email_or_phone_def)

theorem login_wrong_secret_witness:
  "crud_user_get_by_email_or_phone example_db ''alice@example.org'' ''alice@example.org''
     = Some alice
   \<and> \<not> verify_password example_security ''looking-glass'' (password alice)
   \<and> create_user_login example_security example_db
         \<lparr>email_or_phone_no = ''alice@example.org'', login_password = ''looking-glass'',
          login_user_role = ''r1''\<rparr> =
       ([Call_get_by_email_or_phone ''alice@example.org'' ''alice@example.org'',
         Call_verify_password ''looking-glass'' ''h:wonderland''],
        Inr \<lparr>content = [(''detail'', JStr ''Please check user credentials''),
                         (''status'', JInt 409)], status_code = 409\<rparr>)
   \<and> create_user_login example_security (example_db\<lparr>user_roles := []\<rparr>)
         \<lparr>email_or_phone_no = ''alice@example.org'', login_password = ''looking-glass'',
          login_user_role = ''r1''\<rparr> =
       create_user_login example_security example_db
         \<lparr>email_or_phone_no = ''alice@example.org'', login_password = ''looking-glass'',
          login_user_role = ''r1''\<rparr>"
proof -
  let ?dtl = "\<lparr>email_or_phone_no = ''alice@example.org'', login_password = ''looking-glass'',
               login_user_role = ''r1''\<rparr>"
  have e: "crud_user_get_by_email_or_phone example_db (email_or_phone_no ?dtl)
             (email_or_phone_no ?dtl) = Some alice"
    by (simp add: lookup_defs example_defs)
  have v: "\<not> verify_password example_security (login_password ?dtl) (password alice)"
    by (simp add: example_defs)
  have pw: "password alice = ''h:wonderland''"
    by (simp add: alice_def)
  from login_wrong_secret [OF e v, of "[]"] e v show ?thesis
    by (simp add: pw)
qed

text \<open>
  C6. When the identifier is neither the email nor the phone number of any stored user
  (the same string is passed to the lookup for both fields), the login fails with the
  not-found response: status 409 and the message
  \<^verbatim>\<open>User does not exist, please sign up.\<close> The lookup is the only call made:
  neither the secret is verified nor the role resolved.
\<close>

theorem login_unknown_identifier:
  assumes "\<forall>u \<in> set (users db). email u \<noteq> email_or_phone_no user_dtl
             \<and> phone_number u \<noteq> Some (email_or_phone_no user_dtl)"
  shows "create_user_login sec db user_dtl =
           ([Call_get_by_email_or_phone (email_or_phone_no user_dtl) (email_or_phone_no user_dtl)],
            Inr \<lparr>content = [(''detail'', JStr ''User does not exist, please sign up.''),
                             (''status'', JInt 409)], status_code = 409\<rparr>)"
proof -
  from assms have "crud_user_get_by_email_or_phone db (email_or_phone_no user_dtl)
      (email_or_phone_no user_dtl) = None"
    by (simp add: get_by_email_or_phone_None)
  then show ?thesis by (simp add: login_defs)
qed

theorem login_unknown_identifier_witness:
  "users example_db = [alice, bob]
   \<and> email alice \<noteq> ''5550002'' \<and> phone_number alice \<noteq> Some ''5550002''
   \<and> email bob \<noteq> ''5550002'' \<and> phone_number bob \<noteq> Some ''5550002''
   \<and> create_user_login example_security example_db
         \<lparr>email_or_phone_no = ''5550002'', login_password = ''wonderland'',
          login_user_role = ''r1''\<rparr> =
       ([Call_get_by_email_or_phone ''5550002'' ''5550002''],
        Inr \<lparr>content = [(''detail'', JStr ''User does not exist, please sign up.''),
                         (''status'', JInt 409)], status_code = 409\<rparr>)"
proof -
  let ?dtl = "\<lparr>email_or_phone_no = ''5550002'', login_password = ''wonderland'',
               login_user_role = ''r1''\<rparr>"
  have u: "users example_db = [alice, bob]"
    by (simp add: example_db_def)
  have a: "email alice \<noteq> ''5550002''" "phone_number alice \<noteq> Some ''5550002''"
    "email bob \<noteq> ''5550002''" "phone_number bob \<noteq> Some ''5550002''"
    by (simp_all add: alice_def bob_def)
  have h: "\<forall>u \<in> set (users example_db). email u \<noteq> email_or_phone_no ?dtl
             \<and> phone_number u \<noteq> Some (email_or_phone_no ?dtl)"
    using a by (simp add: u)
  from login_unknown_identifier [OF h, of example_security] u a show ?thesis
    by simp
qed



section \<open>Creating a user\<close>

lemma find_append_fresh:
  assumes "find P xs = None" and "P x"
  shows "find P (xs @ [x]) = Some x"
  using assms by (induction xs) (simp_all split: if_splits)

text \<open>
  C7. Creating a user whose email a stored user already has fails with the conflict
  response (status 409) and leaves the store as it was. Creating a user whose email no
  stored user has succeeds (status 200) and appends one record to the store; the record
  carries that email and the hash of the given secret, and looking the email up
  afterwards returns this record.
\<close>

theorem create_user_conflict_or_persist:
  "((\<exists>u \<in> set (users db). email u = email_id user_in) \<longrightarrow>
      create_user sec new_id now db user_in =
        (Inr \<lparr>content =
               [(''detail'', JStr ''The user with this user email already exists in the system.''),
                (''status'', JInt 409)],
              status_code = 409\<rparr>, db))
   \<and> ((\<forall>u \<in> set (users db). email u \<noteq> email_id user_in) \<longrightarrow>
        (\<exists>new. create_user sec new_id now db user_in =
                 (Inr \<lparr>content = [(''message'', JStr ''User created successfully''),
                                  (''status'', JInt 200)],
                       status_code = 200\<rparr>,
                  db\<lparr>users := users db @ [new]\<rparr>)
               \<and> email new = email_id user_in
               \<and> password new = hash_password sec (create_password user_in)
               \<and> crud_user_get_by_email (db\<lparr>users := users db @ [new]\<rparr>) (email_id user_in)
                   = Some new))"
proof (intro conjI impI)
  assume "\<exists>u \<in> set (users db). email u = email_id user_in"
  then have "crud_user_get_by_email db (email_id user_in) \<noteq> None"
    by (simp add: get_by_email_None)
  then obtain u where "crud_user_get_by_email db (email_id user_in) = Some u"
    by blast
  then show "create_user sec new_id now db user_in =
        (Inr \<lparr>content =
               [(''detail'', JStr ''The user with this user email already exists in the system.''),
                (''status'', JInt 409)],
              status_code = 409\<rparr>, db)"
    by (simp add: create_user_def create_user_body_def)
next
  let ?new = "\<lparr>user_id = new_id, email = email_id user_in,
               phone_number = create_phone_number user_in,
               full_name = create_full_name user_in,
               password = hash_password sec (create_password user_in),
               is_active = True, created_at = now, updated_at = now,
               user_role = None\<rparr>"
  assume "\<forall>u \<in> set (users db). email u \<noteq> email_id user_in"
  then have n: "crud_user_get_by_email db (email_id user_in) = None"
    by (simp add: get_by_email_None)
  then have f: "find (\<lambda>u. email u = email_id user_in) (users db) = None"
    by (simp add: crud_user_get_by_email_def)
  have c: "create_user sec new_id now db user_in =
             (Inr \<lparr>content = [(''message'', JStr ''User created successfully''),
                              (''status'', JInt 200)],
                   status_code = 200\<rparr>,
              db\<lparr>users := users db @ [?new]\<rparr>)"
    by (simp add: create_user_def create_user_body_def crud_user_create_def Let_def n)
  have l: "crud_user_get_by_email (db\<lparr>users := users db @ [?new]\<rparr>) (email_id user_in)
             = Some ?new"
    by (simp add: crud_user_get_by_email_def find_append_fresh [OF f])
  from c l show "\<exists>new. create_user sec new_id now db user_in =
                 (Inr \<lparr>content = [(''message'', JStr ''User created successfully''),
                                  (''status'', JInt 200)],
                       status_code = 200\<rparr>,
                  db\<lparr>users := users db @ [new]\<rparr>)
               \<and> email new = email_id user_in
               \<and> password new = hash_password sec (create_password user_in)
               \<and> crud_user_get_by_email (db\<lparr>users := users db @ [new]\<rparr>) (email_id user_in)
                   = Some new"
    by (intro exI [of _ ?new]) simp
qed

theorem create_user_conflict_or_persist_witness:
  "bob \<in> set (users example_db) \<and> email bob = ''bob@example.org''
   \<and> create_user example_security ''u3'' 9 example_db
         \<lparr>email_id = ''bob@example.org'', create_password = ''saw'',
          create_full_name = ''Robert'', create_phone_number = None\<rparr> =
       (Inr \<lparr>content =
              [(''detail'', JStr ''The user with this user email already exists in the system.''),
               (''status'', JInt 409)],
             status_code = 409\<rparr>, example_db)
   \<and> email alice \<noteq> ''carol@example.org'' \<and> email bob \<noteq> ''carol@example.org''
   \<and> (\<exists>new. create_user example_security ''u3'' 9 example_db
                \<lparr>email_id = ''carol@example.org'', create_password = ''saw'',
                 create_full_name = ''Carol'', create_phone_number = None\<rparr> =
              (Inr \<lparr>content = [(''message'', JStr ''User created successfully''),
                               (''status'', JInt 200)],
                    status_code = 200\<rparr>,
               example_db\<lparr>users := users example_db @ [new]\<rparr>)
            \<and> email new = ''carol@example.org''
            \<and> password new = ''h:saw''
            \<and> crud_user_get_by_email (example_db\<lparr>users := users example_db @ [new]\<rparr>)
                 ''carol@example.org'' = Some new)"
proof -
  let ?dup = "\<lparr>email_id = ''bob@example.org'', create_password = ''saw'',
               create_full_name = ''Robert'', create_phone_number = None\<rparr>"
  let ?fresh = "\<lparr>email_id = ''carol@example.org'', create_password = ''saw'',
                 create_full_name = ''Carol'', create_phone_number = None\<rparr>"
  have u: "users example_db = [alice, bob]"
    by (simp add: example_db_def)
  have b: "bob \<in> set (users example_db)" "email bob = ''bob@example.org''"
    by (simp_all add: u) (simp add: bob_def)
  have f: "email alice \<noteq> ''carol@example.org''" "email bob \<noteq> ''carol@example.org''"
    by (simp_all add: alice_def bob_def)
  have h1: "\<exists>u \<in> set (users example_db). email u = email_id ?dup"
    using b by auto
  have h2: "\<forall>u \<in> set (users example_db). email u \<noteq> email_id ?fresh"
    using f by (simp add: u)
  have s: "hash_password example_security ''saw'' = ''h:saw''"
    by (simp add: example_security_def)
  from create_user_conflict_or_persist [of example_db ?dup example_security "''u3''" 9] h1
  have d: "create_user example_security ''u3'' 9 example_db ?dup =
       (Inr \<lparr>content =
              [(''detail'', JStr ''The user with this user email already exists in the system.''),
               (''status'', JInt 409)],
             status_code = 409\<rparr>, example_db)"
    by blast
  from create_user_conflict_or_persist [of example_db ?fresh example_security "''u3''" 9] h2
  have n: "\<exists>new. create_user example_security ''u3'' 9 example_db ?fresh =
              (Inr \<lparr>content = [(''message'', JStr ''User created successfully''),
                               (''status'', JInt 200)],
                    status_code = 200\<rparr>,
               example_db\<lparr>users := users example_db @ [new]\<rparr>)
            \<and> email new = ''carol@example.org''
            \<and> password new = ''h:saw''
            \<and> crud_user_get_by_email (example_db\<lparr>users := users example_db @ [new]\<rparr>)
                 ''carol@example.org'' = Some new"
    by (simp add: s)
  from b d f n show ?thesis by blast
qed

section \<open>The current user\<close>

text \<open>
  C8. A partial update of the current user changes the full name, the phone number and the
  email exactly where a value is given, and leaves each of them as stored where none is
  given; the identifier, the hashed secret, the active flag, both timestamps and the role
  assignment keep their values. In the store the row of the current user is replaced by
  the updated record and nothing else changes. Applying the same update again, to the
  updated record and store, yields the same record and store.
\<close>

theorem update_user_me_partial:
  "fst (update_user_me db full_name_arg phone_number_arg email_arg current_user) =
     current_user
       \<lparr>full_name := (case full_name_arg of None \<Rightarrow> full_name current_user | Some v \<Rightarrow> v),
        phone_number :=
          (case phone_number_arg of None \<Rightarrow> phone_number current_user | Some v \<Rightarrow> Some v),
        email := (case email_arg of None \<Rightarrow> email current_user | Some v \<Rightarrow> v)\<rparr>
   \<and> user_id (fst (update_user_me db full_name_arg phone_number_arg email_arg current_user))
       = user_id current_user
   \<and> password (fst (update_user_me db full_name_arg phone_number_arg email_arg current_user))
       = password current_user
   \<and> is_active (fst (update_user_me db full_name_arg phone_number_arg email_arg current_user))
       = is_active current_user
   \<and> created_at (fst (update_user_me db full_name_arg phone_number_arg email_arg current_user))
       = created_at current_user
   \<and> updated_at (fst (update_user_me db full_name_arg phone_number_arg email_arg current_user))
       = updated_at current_user
   \<and> user_role (fst (update_user_me db full_name_arg phone_number_arg email_arg current_user))
       = user_role current_user
   \<and> snd (update_user_me db full_name_arg phone_number_arg email_arg current_user) =
       db\<lparr>users :=
            map (\<lambda>u. if user_id u = user_id current_user
                      then fst (update_user_me db full_name_arg phone_number_arg email_arg
                                  current_user)
                      else u) (users db)\<rparr>
   \<and> update_user_me
         (snd (update_user_me db full_name_arg phone_number_arg email_arg current_user))
         full_name_arg phone_number_arg email_arg
         (fst (update_user_me db full_name_arg phone_number_arg email_arg current_user)) =
       update_user_me db full_name_arg phone_number_arg email_arg current_user"
  by (cases full_name_arg; cases phone_number_arg; cases email_arg;
      cases "phone_number current_user")
     (simp_all add: update_user_me_def crud_user_update_def merge_fields_def UserUpdate_of_def
        Let_def comp_def)

text \<open>
  C10. The profile returned for the current user has role \<open>None\<close> when the user has
  no role assignment and the name of the assigned role otherwise; its id, email, active
  flag, full name and timestamps are those of the current user.
\<close>

theorem read_user_me_profile:
  "(user_role current_user = None \<longrightarrow> s_role (read_user_me current_user) = None)
   \<and> (\<forall>ur. user_role current_user = Some ur \<longrightarrow>
          s_role (read_user_me current_user) = Some (name (role ur)))
   \<and> s_id (read_user_me current_user) = user_id current_user
   \<and> s_email (read_user_me current_user) = email current_user
   \<and> s_is_active (read_user_me current_user) = is_active current_user
   \<and> s_full_name (read_user_me current_user) = full_name current_user
   \<and> s_created_at (read_user_me current_user) = created_at current_user
   \<and> s_updated_at (read_user_me current_user) = updated_at current_user"
  by (simp add: read_user_me_def)

theorem read_user_me_profile_witness:
  "user_role bob = None \<and> s_role (read_user_me bob) = None
   \<and> user_role alice = Some admin_assignment
   \<and> s_role (read_user_me alice) = Some ''ADMIN''
   \<and> read_user_me alice =
       \<lparr>s_id = ''u1'', s_email = ''alice@example.org'', s_is_active = True,
        s_full_name = ''Alice'', s_created_at = 1, s_updated_at = 2,
        s_role = Some ''ADMIN''\<rparr>"
proof -
  have b: "user_role bob = None" by (simp add: bob_def)
  have a: "user_role alice = Some admin_assignment" by (simp add: alice_def)
  have n: "name (role admin_assignment) = ''ADMIN''" by (simp add: admin_assignment_def)
  have f: "user_id alice = ''u1''" "email alice = ''alice@example.org''" "is_active alice"
    "full_name alice = ''Alice''" "created_at alice = 1" "updated_at alice = 2"
    by (simp_all add: alice_def)
  from read_user_me_profile [of bob] b have rb: "s_role (read_user_me bob) = None"
    by simp
  from read_user_me_profile [of alice] a n f
  have ra: "s_role (read_user_me alice) = Some ''ADMIN''"
    and "s_id (read_user_me alice) = ''u1''"
    and "s_email (read_user_me alice) = ''alice@example.org''"
    and "s_is_active (read_user_me alice) = True"
    and "s_full_name (read_user_me alice) = ''Alice''"
    and "s_created_at (read_user_me alice) = 1"
    and "s_updated_at (read_user_me alice) = 2"
    by simp_all
  then have "read_user_me alice =
       \<lparr>s_id = ''u1'', s_email = ''alice@example.org'', s_is_active = True,
        s_full_name = ''Alice'', s_created_at = 1, s_updated_at = 2,
        s_role = Some ''ADMIN''\<rparr>"
    by (cases "read_user_me alice") simp
  with a b ra rb show ?thesis by simp
qed

section \<open>Pagination\<close>

text \<open>
  C4. For a page and a limit of at least 1 the listing returns a result whose skip is
  \<open>(page - 1) * limit\<close>, whose limit is the limit given, whose items are the
  first \<open>limit\<close> items from offset skip among the items with the given status, and
  whose total is the number of items of this page, which is at most the limit. Page 1
  with limit 10 has skip 0 and page 2 with limit 10 has skip 10.
\<close>

theorem get_items_paginates:
  assumes "1 \<le> page" and "1 \<le> limit"
  shows "(\<exists>r. get_items status db page limit = Inr r
            \<and> p_skip r = (page - 1) * limit
            \<and> p_limit r = limit
            \<and> p_items r =
                take (nat limit)
                  (drop (nat ((page - 1) * limit))
                     (filter (\<lambda>i. item_status i = status) (items db)))
            \<and> p_total r = length (p_items r)
            \<and> int (length (p_items r)) \<le> limit)
         \<and> (\<exists>r. get_items status db 1 10 = Inr r \<and> p_skip r = 0 \<and> p_limit r = 10
                \<and> length (p_items r) \<le> 10)
         \<and> (\<exists>r. get_items status db 2 10 = Inr r \<and> p_skip r = 10 \<and> p_limit r = 10
                \<and> length (p_items r) \<le> 10)"
  using assms by (simp add: get_items_def crud_user_get_items_def Let_def)

theorem get_items_paginates_witness:
  "(1::int) \<le> 1 \<and> (1::int) \<le> 2
   \<and> get_items 1 example_db 1 2 =
       Inr \<lparr>p_total = 2,
            p_items = [\<lparr>item_ident = ''a'', item_status = 1\<rparr>,
                       \<lparr>item_ident = ''c'', item_status = 1\<rparr>],
            p_skip = 0, p_limit = 2\<rparr>
   \<and> length (filter (\<lambda>i. item_status i = 1) (items example_db)) = 3"
proof -
  have h: "(1::int) \<le> 1" "(1::int) \<le> 2" by simp_all
  have f: "filter (\<lambda>i. item_status i = 1) (items example_db) =
             [\<lparr>item_ident = ''a'', item_status = 1\<rparr>,
              \<lparr>item_ident = ''c'', item_status = 1\<rparr>,
              \<lparr>item_ident = ''d'', item_status = 1\<rparr>]"
    by (simp add: example_db_def)
  from get_items_paginates [OF h, of 1 example_db]
  obtain r where r: "get_items 1 example_db 1 2 = Inr r"
    and "p_skip r = 0" "p_limit r = 2"
    and "p_items r = [\<lparr>item_ident = ''a'', item_status = 1\<rparr>,
                      \<lparr>item_ident = ''c'', item_status = 1\<rparr>]"
    and "p_total r = length (p_items r)"
    by (auto simp: f)
  then have "r = \<lparr>p_total = 2,
            p_items = [\<lparr>item_ident = ''a'', item_status = 1\<rparr>,
                       \<lparr>item_ident = ''c'', item_status = 1\<rparr>],
            p_skip = 0, p_limit = 2\<rparr>"
    by simp
  with r f show ?thesis by simp
qed

end
